theory Spec2Isabelle
  imports Complex_Main "HOL-Library.Word"
begin

section \<open>Outcomes of a Go call\<close>

text \<open>
  A Go call either returns or panics. The panics of this code base are string panics
  (\<open>panic("...")\<close> in \<open>types/value.go\<close>, \<open>math/big\<close> and the decimal library), the
  run-time error "invalid memory address or nil pointer dereference", and the decimal
  library's formatted panic "exponent N overflows an int32!".
\<close>

datatype panic_val =
    PanicString string
  | InvalidMemoryAddress
  | ExponentOverflows int

datatype 'a outcome = Return 'a | Panic panic_val

definition obind :: "'a outcome \<Rightarrow> ('a \<Rightarrow> 'b outcome) \<Rightarrow> 'b outcome" where
  "obind m f = (case m of Return x \<Rightarrow> f x | Panic p \<Rightarrow> Panic p)"

fun panicked :: "'a outcome \<Rightarrow> bool" where
  "panicked (Panic p) = True"
| "panicked (Return x) = False"

section \<open>The store: \<open>big.Int\<close> objects and \<open>CoinValue\<close> structs\<close>

text \<open>
  \<open>*big.Int\<close> and \<open>*CoinValue[D]\<close> are pointers, so both kinds of object live in a
  store and a pointer is an address (\<open>None\<close> is \<open>nil\<close>). Addresses are indices into the
  list of allocated objects; allocation appends. The type parameter \<open>D\<close> of
  \<open>CoinValue[D]\<close> only contributes its two methods, so the field \<open>def\<close> holds what
  \<open>CoinName()\<close> and \<open>UnitExp()\<close> return for that \<open>D\<close>.
\<close>

type_synonym addr = nat

record ValueDefinition =
  CoinName :: string
  UnitExp :: "32 word"

record CoinValue =
  "def" :: ValueDefinition
  value_ptr :: "addr option"

record store =
  ints :: "int list"
  coins :: "CoinValue list"

definition load_int :: "store \<Rightarrow> addr option \<Rightarrow> int outcome" where
  "load_int s p =
     (case p of
        None \<Rightarrow> Panic InvalidMemoryAddress
      | Some a \<Rightarrow> if a < length (ints s) then Return (ints s ! a)
                  else Panic InvalidMemoryAddress)"

definition write_int :: "store \<Rightarrow> addr option \<Rightarrow> int \<Rightarrow> store outcome" where
  "write_int s p n =
     (case p of
        None \<Rightarrow> Panic InvalidMemoryAddress
      | Some a \<Rightarrow> if a < length (ints s) then Return (s\<lparr>ints := (ints s)[a := n]\<rparr>)
                  else Panic InvalidMemoryAddress)"

definition new_int :: "store \<Rightarrow> int \<Rightarrow> addr option \<times> store" where
  "new_int s n = (Some (length (ints s)), s\<lparr>ints := ints s @ [n]\<rparr>)"

definition load_cv :: "store \<Rightarrow> addr option \<Rightarrow> CoinValue outcome" where
  "load_cv s p =
     (case p of
        None \<Rightarrow> Panic InvalidMemoryAddress
      | Some a \<Rightarrow> if a < length (coins s) then Return (coins s ! a)
                  else Panic InvalidMemoryAddress)"

definition new_cv :: "store \<Rightarrow> CoinValue \<Rightarrow> addr option \<times> store" where
  "new_cv s c = (Some (length (coins s)), s\<lparr>coins := coins s @ [c]\<rparr>)"

section \<open>\<open>math/big\<close>: the operations of \<open>big.Int\<close> the code calls\<close>

text \<open>
  \<open>Quo\<close> and \<open>Rem\<close> are Go's truncated division; \<open>Div\<close> is Euclidean division, built
  in \<open>math/big\<close> from \<open>QuoRem\<close> by adjusting the quotient when the remainder is negative.
  All three panic with "division by zero" on a zero divisor.
\<close>

definition quo_int :: "int \<Rightarrow> int \<Rightarrow> int" where
  "quo_int x y = sgn x * sgn y * (\<bar>x\<bar> div \<bar>y\<bar>)"

definition rem_int :: "int \<Rightarrow> int \<Rightarrow> int" where
  "rem_int x y = x - y * quo_int x y"

definition div_int :: "int \<Rightarrow> int \<Rightarrow> int" where
  "div_int x y =
     (let y_neg = (y < 0); q = quo_int x y; r = rem_int x y
      in if r < 0 then (if y_neg then q + 1 else q - 1) else q)"

definition Int_binop ::
  "(int \<Rightarrow> int \<Rightarrow> int outcome) \<Rightarrow> store \<Rightarrow> addr option \<Rightarrow> addr option \<Rightarrow> addr option
     \<Rightarrow> (addr option \<times> store) outcome" where
  "Int_binop f s z x y =
     obind (load_int s x) (\<lambda>xv.
     obind (load_int s y) (\<lambda>yv.
     obind (f xv yv) (\<lambda>zv.
     obind (write_int s z zv) (\<lambda>s'. Return (z, s')))))"

definition Int_Add :: "store \<Rightarrow> addr option \<Rightarrow> addr option \<Rightarrow> addr option
     \<Rightarrow> (addr option \<times> store) outcome" where
  "Int_Add = Int_binop (\<lambda>x y. Return (x + y))"

definition Int_Sub :: "store \<Rightarrow> addr option \<Rightarrow> addr option \<Rightarrow> addr option
     \<Rightarrow> (addr option \<times> store) outcome" where
  "Int_Sub = Int_binop (\<lambda>x y. Return (x - y))"

definition Int_Mul :: "store \<Rightarrow> addr option \<Rightarrow> addr option \<Rightarrow> addr option
     \<Rightarrow> (addr option \<times> store) outcome" where
  "Int_Mul = Int_binop (\<lambda>x y. Return (x * y))"

definition Int_Div :: "store \<Rightarrow> addr option \<Rightarrow> addr option \<Rightarrow> addr option
     \<Rightarrow> (addr option \<times> store) outcome" where
  "Int_Div = Int_binop (\<lambda>x y. if y = 0 then Panic (PanicString ''division by zero'')
                               else Return (div_int x y))"

section \<open>\<open>types/value.go\<close>: construction from raw units, accessors, arithmetic\<close>

definition NewCoinValue ::
  "ValueDefinition \<Rightarrow> store \<Rightarrow> addr option \<Rightarrow> addr option \<times> store" where
  "NewCoinValue D s v =
     (case v of
        None \<Rightarrow> (let (z, s1) = new_int s 0 in new_cv s1 \<lparr>def = D, value_ptr = z\<rparr>)
      | Some a \<Rightarrow> new_cv s \<lparr>def = D, value_ptr = Some a\<rparr>)"

definition Units :: "store \<Rightarrow> addr option \<Rightarrow> addr option outcome" where
  "Units s v = obind (load_cv s v) (\<lambda>c. Return (value_ptr c))"

definition CoinName_of :: "store \<Rightarrow> addr option \<Rightarrow> string outcome" where
  "CoinName_of s v = obind (load_cv s v) (\<lambda>c. Return (CoinName (def c)))"

definition Same :: "store \<Rightarrow> addr option \<Rightarrow> addr option \<Rightarrow> bool outcome" where
  "Same s v other =
     obind (CoinName_of s v) (\<lambda>a.
     obind (CoinName_of s other) (\<lambda>b. Return (a = b)))"

text \<open>
  The four binary operations differ only in the panic message and in the \<open>big.Int\<close>
  method; \<open>arith\<close> is their common body:
  \<^verbatim>\<open>
  if !v.Same(other) { panic(msg) }
  return &CoinValue[D]{def: v.def, value: new(big.Int).Op(v.value, other.Units())}
  \<close>
\<close>

definition arith ::
  "string \<Rightarrow> (store \<Rightarrow> addr option \<Rightarrow> addr option \<Rightarrow> addr option \<Rightarrow> (addr option \<times> store) outcome)
     \<Rightarrow> store \<Rightarrow> addr option \<Rightarrow> addr option \<Rightarrow> (addr option \<times> store) outcome" where
  "arith msg opn s v other =
     obind (Same s v other) (\<lambda>same.
       if \<not> same then Panic (PanicString msg)
       else obind (load_cv s v) (\<lambda>c.
            let (z, s1) = new_int s 0 in
            obind (Units s1 other) (\<lambda>y.
            obind (opn s1 z (value_ptr c) y) (\<lambda>(r, s2).
            Return (new_cv s2 \<lparr>def = def c, value_ptr = r\<rparr>)))))"

definition Add :: "store \<Rightarrow> addr option \<Rightarrow> addr option \<Rightarrow> (addr option \<times> store) outcome" where
  "Add = arith ''cannot add values of different coins'' Int_Add"

definition Sub :: "store \<Rightarrow> addr option \<Rightarrow> addr option \<Rightarrow> (addr option \<times> store) outcome" where
  "Sub = arith ''cannot subtract values of different coins'' Int_Sub"

definition Mul :: "store \<Rightarrow> addr option \<Rightarrow> addr option \<Rightarrow> (addr option \<times> store) outcome" where
  "Mul = arith ''cannot multiply values of different coins'' Int_Mul"

definition Div :: "store \<Rightarrow> addr option \<Rightarrow> addr option \<Rightarrow> (addr option \<times> store) outcome" where
  "Div = arith ''cannot divide values of different coins'' Int_Div"

text \<open>
  The scalar operations have no currency check:
  \<^verbatim>\<open>
  return &CoinValue[D]{def: v.def, value: new(big.Int).Op(v.value, scalar)}
  \<close>
\<close>

definition arith_scalar ::
  "(store \<Rightarrow> addr option \<Rightarrow> addr option \<Rightarrow> addr option \<Rightarrow> (addr option \<times> store) outcome)
     \<Rightarrow> store \<Rightarrow> addr option \<Rightarrow> addr option \<Rightarrow> (addr option \<times> store) outcome" where
  "arith_scalar opn s v scalar =
     obind (load_cv s v) (\<lambda>c.
     let (z, s1) = new_int s 0 in
     obind (opn s1 z (value_ptr c) scalar) (\<lambda>(r, s2).
     Return (new_cv s2 \<lparr>def = def c, value_ptr = r\<rparr>)))"

definition MulScalar :: "store \<Rightarrow> addr option \<Rightarrow> addr option \<Rightarrow> (addr option \<times> store) outcome" where
  "MulScalar = arith_scalar Int_Mul"

definition DivScalar :: "store \<Rightarrow> addr option \<Rightarrow> addr option \<Rightarrow> (addr option \<times> store) outcome" where
  "DivScalar = arith_scalar Int_Div"

text \<open>
  What the specification calls an Amount: a pointer to an allocated \<open>CoinValue\<close> whose
  \<open>value\<close> points to an allocated \<open>big.Int\<close>. \<open>units_of\<close> reads \<open>*v.Units()\<close>.
\<close>

definition units_of :: "store \<Rightarrow> addr option \<Rightarrow> int outcome" where
  "units_of s v = obind (Units s v) (load_int s)"

definition def_of :: "store \<Rightarrow> addr option \<Rightarrow> ValueDefinition outcome" where
  "def_of s v = obind (load_cv s v) (\<lambda>c. Return (def c))"

section \<open>The decimal library: the operations of \<open>decimal.Decimal\<close> the code calls\<close>

text \<open>
  A \<open>Decimal\<close> is the number \<open>value * 10 ^ exp\<close> with an arbitrary-precision \<open>value\<close>
  and an \<open>int32\<close> exponent. Decimals are passed by value and never modified by the
  library, so they are modelled as plain records; only \<open>BigInt\<close> hands a \<open>*big.Int\<close>
  to \<open>types/value.go\<close>, and that one is allocated in the store.
\<close>

record Decimal =
  dvalue :: int
  dexp :: "32 word"

definition Decimal_New :: "int \<Rightarrow> 32 word \<Rightarrow> Decimal" where
  "Decimal_New v e = \<lparr>dvalue = v, dexp = e\<rparr>"

definition NewFromBigInt :: "store \<Rightarrow> addr option \<Rightarrow> 32 word \<Rightarrow> Decimal outcome" where
  "NewFromBigInt s p e = obind (load_int s p) (\<lambda>n. Return \<lparr>dvalue = n, dexp = e\<rparr>)"

text \<open>
  \<open>rescale\<close> changes the exponent: it multiplies the value when the exponent goes down
  and divides with \<open>Quo\<close> when it goes up ("this will truncate, NOT round").
\<close>

definition rescale :: "Decimal \<Rightarrow> 32 word \<Rightarrow> Decimal" where
  "rescale d e =
     (if dexp d = e then d
      else let diff = \<bar>sint e - sint (dexp d)\<bar>;
               expScale = (10::int) ^ nat diff
           in if sint e > sint (dexp d)
              then \<lparr>dvalue = quo_int (dvalue d) expScale, dexp = e\<rparr>
              else \<lparr>dvalue = dvalue d * expScale, dexp = e\<rparr>)"

definition RescalePair :: "Decimal \<Rightarrow> Decimal \<Rightarrow> Decimal \<times> Decimal" where
  "RescalePair d1 d2 =
     (if sint (dexp d1) < sint (dexp d2) then (d1, rescale d2 (dexp d1))
      else if sint (dexp d1) > sint (dexp d2) then (rescale d1 (dexp d2), d2)
      else (d1, d2))"

definition Decimal_Mul :: "Decimal \<Rightarrow> Decimal \<Rightarrow> Decimal outcome" where
  "Decimal_Mul d d2 =
     (let expInt64 = sint (dexp d) + sint (dexp d2)
      in if expInt64 > 2147483647 \<or> expInt64 < - 2147483648
         then Panic (ExponentOverflows expInt64)
         else Return \<lparr>dvalue = dvalue d * dvalue d2, dexp = word_of_int expInt64\<rparr>)"

definition Decimal_Add :: "Decimal \<Rightarrow> Decimal \<Rightarrow> Decimal" where
  "Decimal_Add d d2 =
     (let (rd, rd2) = RescalePair d d2
      in \<lparr>dvalue = dvalue rd + dvalue rd2, dexp = dexp rd\<rparr>)"

definition Decimal_Sub :: "Decimal \<Rightarrow> Decimal \<Rightarrow> Decimal" where
  "Decimal_Sub d d2 =
     (let (rd, rd2) = RescalePair d d2
      in \<lparr>dvalue = dvalue rd - dvalue rd2, dexp = dexp rd\<rparr>)"

definition Decimal_Abs :: "Decimal \<Rightarrow> Decimal" where
  "Decimal_Abs d = \<lparr>dvalue = \<bar>dvalue d\<bar>, dexp = dexp d\<rparr>"

definition cmp_int :: "int \<Rightarrow> int \<Rightarrow> int" where
  "cmp_int a b = (if a < b then - 1 else if a = b then 0 else 1)"

definition Decimal_Cmp :: "Decimal \<Rightarrow> Decimal \<Rightarrow> int" where
  "Decimal_Cmp d d2 =
     (if dexp d = dexp d2 then cmp_int (dvalue d) (dvalue d2)
      else let (rd, rd2) = RescalePair d d2 in cmp_int (dvalue rd) (dvalue rd2))"

definition Decimal_BigInt :: "store \<Rightarrow> Decimal \<Rightarrow> addr option \<times> store" where
  "Decimal_BigInt s d = new_int s (dvalue (rescale d 0))"

text \<open>
  \<open>d.QuoRem(d2, precision)\<close>: quotient \<open>q\<close>, an integer multiple of
  \<open>10 ^ (- precision)\<close>, and remainder \<open>r\<close> with \<open>d = d2 * q + r\<close>; the integers are
  divided with the truncating \<open>big.Int.QuoRem\<close>.
\<close>

definition Decimal_QuoRem :: "Decimal \<Rightarrow> Decimal \<Rightarrow> 32 word \<Rightarrow> (Decimal \<times> Decimal) outcome" where
  "Decimal_QuoRem d d2 precision =
     (if dvalue d2 = 0 then Panic (PanicString ''decimal division by 0'')
      else let scale = - precision;
               e = sint (dexp d) - sint (dexp d2) - sint scale
           in if e > 2147483647 \<or> e < - 2147483648
              then Panic (PanicString ''overflow in decimal QuoRem'')
              else let (aa, bb, scalerest) =
                         (if e < 0
                          then (dvalue d, dvalue d2 * 10 ^ nat (- e), dexp d)
                          else (dvalue d * 10 ^ nat e, dvalue d2, scale + dexp d2))
                   in Return (\<lparr>dvalue = quo_int aa bb, dexp = scale\<rparr>,
                              \<lparr>dvalue = rem_int aa bb, dexp = scalerest\<rparr>))"

text \<open>
  \<open>d.DivRound(d2, precision)\<close>: the quotient of \<open>QuoRem\<close>, moved one unit of the last
  place away from zero when twice the remainder reaches the divisor.
\<close>

definition DivRound :: "Decimal \<Rightarrow> Decimal \<Rightarrow> 32 word \<Rightarrow> Decimal outcome" where
  "DivRound d d2 precision =
     obind (Decimal_QuoRem d d2 precision) (\<lambda>(q, r).
       let rv2 = \<bar>dvalue r\<bar> * 2;
           r2 = \<lparr>dvalue = rv2, dexp = dexp r + precision\<rparr>;
           c = Decimal_Cmp r2 (Decimal_Abs d2)
       in if c < 0 then Return q
          else if sgn (dvalue d) * sgn (dvalue d2) < 0
               then Return (Decimal_Sub q (Decimal_New 1 (- precision)))
               else Return (Decimal_Add q (Decimal_New 1 (- precision))))"

section \<open>\<open>types/value.go\<close>: construction from decimals, decimal accessors\<close>

definition set_value :: "store \<Rightarrow> addr option \<Rightarrow> addr option \<Rightarrow> store outcome" where
  "set_value s cv z =
     (case cv of
        None \<Rightarrow> Panic InvalidMemoryAddress
      | Some a \<Rightarrow> if a < length (coins s)
                  then Return (s\<lparr>coins := (coins s)[a := (coins s ! a)\<lparr>value_ptr := z\<rparr>]\<rparr>)
                  else Panic InvalidMemoryAddress)"

text \<open>
  \<^verbatim>\<open>
  cv := NewCoinValue[D](nil)
  cv.value = value.Mul(decimal.New(1, cv.def.UnitExp()-exp)).BigInt()
  return cv
  \<close>
  \<open>NewCoinValueFromCoins\<close> is the same with the exponent \<open>cv.def.UnitExp()\<close>. The
  subtraction is \<open>int32\<close> arithmetic and wraps.
\<close>

definition from_decimal ::
  "ValueDefinition \<Rightarrow> store \<Rightarrow> Decimal \<Rightarrow> (32 word \<Rightarrow> 32 word) \<Rightarrow> (addr option \<times> store) outcome" where
  "from_decimal D s v expo =
     (let (cv, s1) = NewCoinValue D s None in
      obind (load_cv s1 cv) (\<lambda>c.
      obind (Decimal_Mul v (Decimal_New 1 (expo (UnitExp (def c))))) (\<lambda>m.
      let (z, s2) = Decimal_BigInt s1 m in
      obind (set_value s2 cv z) (\<lambda>s3. Return (cv, s3)))))"

definition NewCoinValueFromCoins ::
  "ValueDefinition \<Rightarrow> store \<Rightarrow> Decimal \<Rightarrow> (addr option \<times> store) outcome" where
  "NewCoinValueFromCoins D s v = from_decimal D s v (\<lambda>u. u)"

definition NewCoinValueFromScaled ::
  "ValueDefinition \<Rightarrow> store \<Rightarrow> Decimal \<Rightarrow> 32 word \<Rightarrow> (addr option \<times> store) outcome" where
  "NewCoinValueFromScaled D s v e = from_decimal D s v (\<lambda>u. u - e)"

definition Coins :: "store \<Rightarrow> addr option \<Rightarrow> Decimal outcome" where
  "Coins s v =
     obind (load_cv s v) (\<lambda>c.
     obind (NewFromBigInt s (value_ptr c) 0) (\<lambda>d.
     DivRound d (Decimal_New 1 (UnitExp (def c))) (UnitExp (def c))))"

definition ScaledValue :: "store \<Rightarrow> addr option \<Rightarrow> 32 word \<Rightarrow> Decimal outcome" where
  "ScaledValue s v e =
     obind (load_cv s v) (\<lambda>c.
     obind (NewFromBigInt s (value_ptr c) 0) (\<lambda>d.
     DivRound d (Decimal_New 1 e) (UnitExp (def c))))"

section \<open>\<open>chains/eth/address.go\<close>\<close>

subsection \<open>The regular expression\<close>

text \<open>
  The fragment of Go's regular expressions that \<open>addrRegex\<close> uses: the assertions
  \<open>^\<close> and \<open>$\<close> (begin and end of text; no flag makes them match at lines), a literal
  byte, a class of byte ranges, concatenation and the counted repetition \<open>{n}\<close>. A
  matcher state is the flag "at the beginning of the text" and the input still to read;
  \<open>run\<close> returns the states a match of the expression can end in.
  \<open>MatchString\<close> looks for a match starting at any position of the text.
\<close>

datatype regex =
    BeginText
  | EndText
  | Lit char
  | Class "(char \<times> char) list"
  | Seq regex regex
  | Repeat nat regex

definition in_class :: "(char \<times> char) list \<Rightarrow> char \<Rightarrow> bool" where
  "in_class rs x =
     list_ex (\<lambda>(lo, hi). (of_char lo :: nat) \<le> of_char x \<and> (of_char x :: nat) \<le> of_char hi) rs"

fun weight :: "regex \<Rightarrow> nat" where
  "weight (Seq r1 r2) = Suc (weight r1 + weight r2)"
| "weight (Repeat n r) = Suc n * Suc (weight r)"
| "weight r = 0"

function run :: "regex \<Rightarrow> bool \<times> string \<Rightarrow> (bool \<times> string) list" where
  "run BeginText (b, cs) = (if b then [(b, cs)] else [])"
| "run EndText (b, cs) = (if cs = [] then [(b, cs)] else [])"
| "run (Lit c) (b, cs) =
     (case cs of [] \<Rightarrow> [] | x # xs \<Rightarrow> if x = c then [(False, xs)] else [])"
| "run (Class rs) (b, cs) =
     (case cs of [] \<Rightarrow> [] | x # xs \<Rightarrow> if in_class rs x then [(False, xs)] else [])"
| "run (Seq r1 r2) st = concat (map (run r2) (run r1 st))"
| "run (Repeat 0 r) st = [st]"
| "run (Repeat (Suc n) r) st = concat (map (run (Repeat n r)) (run r st))"
  by pat_completeness auto
termination
  by (relation "measure (\<lambda>(r, st). weight r)") auto

definition MatchString :: "regex \<Rightarrow> string \<Rightarrow> bool" where
  "MatchString r s = list_ex (\<lambda>i. run r (i = 0, drop i s) \<noteq> []) [0..<Suc (length s)]"

definition addrRegex :: regex where
  "addrRegex =
     Seq BeginText
    (Seq (Lit CHR ''0'')
    (Seq (Lit CHR ''x'')
    (Seq (Repeat 40 (Class [(CHR ''0'', CHR ''9''), (CHR ''a'', CHR ''f''), (CHR ''A'', CHR ''F'')]))
         EndText)))"

definition IsValidAddress :: "string \<Rightarrow> bool" where
  "IsValidAddress address = MatchString addrRegex address"

subsection \<open>The contract check\<close>

text \<open>
  The chain client is the external collaborator: \<open>CodeAt\<close> is what the node answers for
  an address (the context and the \<open>nil\<close> block number are fixed by the caller), and the
  list of addresses asked so far is the trace of network calls. Go errors are values:
  \<open>errors.New(msg)\<close> and \<open>fmt.Errorf(prefix + "%w", err)\<close>.
  \<open>common.HexToAddress\<close> decodes the hexadecimal digits after the prefix into the 20
  bytes of an address.
\<close>

datatype error = ErrorsNew string | Errorf string error

type_synonym bytes = "8 word list"

record Client =
  CodeAt :: "bytes \<Rightarrow> bytes \<times> error option"

definition hexval :: "char \<Rightarrow> nat option" where
  "hexval c =
     (let n = (of_char c :: nat)
      in if 48 \<le> n \<and> n \<le> 57 then Some (n - 48)
         else if 97 \<le> n \<and> n \<le> 102 then Some (n - 87)
         else if 65 \<le> n \<and> n \<le> 70 then Some (n - 55)
         else None)"

fun hex_decode :: "string \<Rightarrow> bytes" where
  "hex_decode (a # b # cs) =
     (case (hexval a, hexval b) of
        (Some h, Some l) \<Rightarrow> of_nat (16 * h + l) # hex_decode cs
      | _ \<Rightarrow> [])"
| "hex_decode cs = []"

definition FromHex :: "string \<Rightarrow> bytes" where
  "FromHex s =
     (let s1 = (if 2 \<le> length s \<and> s ! 0 = CHR ''0'' \<and> (s ! 1 = CHR ''x'' \<or> s ! 1 = CHR ''X'')
                then drop 2 s else s);
          s2 = (if odd (length s1) then CHR ''0'' # s1 else s1)
      in hex_decode s2)"

definition BytesToAddress :: "bytes \<Rightarrow> bytes" where
  "BytesToAddress b =
     (let b1 = (if 20 < length b then drop (length b - 20) b else b)
      in replicate (20 - length b1) 0 @ b1)"

definition HexToAddress :: "string \<Rightarrow> bytes" where
  "HexToAddress s = BytesToAddress (FromHex s)"

definition IsSmartContractCtx ::
  "bytes list \<Rightarrow> string \<Rightarrow> Client option \<Rightarrow> ((bool \<times> error option) \<times> bytes list) outcome" where
  "IsSmartContractCtx calls address client =
     (if \<not> IsValidAddress address
      then Return ((False, Some (ErrorsNew ''invalid address'')), calls)
      else let addr = HexToAddress address in
           (case client of
              None \<Rightarrow> Panic InvalidMemoryAddress
            | Some cl \<Rightarrow>
                (let (byteCode, err) = CodeAt cl addr; calls1 = calls @ [addr]
                 in case err of
                      Some e \<Rightarrow> Return ((False, Some (Errorf ''failed to get bytecode: '' e)), calls1)
                    | None \<Rightarrow> Return ((0 < length byteCode, None), calls1))))"

definition IsSmartContract ::
  "bytes list \<Rightarrow> string \<Rightarrow> Client option \<Rightarrow> ((bool \<times> error option) \<times> bytes list) outcome" where
  "IsSmartContract calls address client = IsSmartContractCtx calls address client"

section \<open>The Ether binding\<close>

definition ethDefinition :: ValueDefinition where
  "ethDefinition = \<lparr>CoinName = ''ETH'', UnitExp = 18\<rparr>"

definition NewEth :: "store \<Rightarrow> Decimal \<Rightarrow> (addr option \<times> store) outcome" where
  "NewEth s ether = NewCoinValueFromCoins ethDefinition s ether"

definition NewEthFromWei :: "store \<Rightarrow> addr option \<Rightarrow> addr option \<times> store" where
  "NewEthFromWei s wei = NewCoinValue ethDefinition s wei"

definition NewEthFromKWei :: "store \<Rightarrow> Decimal \<Rightarrow> (addr option \<times> store) outcome" where
  "NewEthFromKWei s kwei = NewCoinValueFromScaled ethDefinition s kwei 3"

definition NewEthFromMWei :: "store \<Rightarrow> Decimal \<Rightarrow> (addr option \<times> store) outcome" where
  "NewEthFromMWei s mwei = NewCoinValueFromScaled ethDefinition s mwei 6"

definition NewEthFromGWeil :: "store \<Rightarrow> Decimal \<Rightarrow> (addr option \<times> store) outcome" where
  "NewEthFromGWeil s gwei = NewCoinValueFromScaled ethDefinition s gwei 9"

definition Wei :: "store \<Rightarrow> addr option \<Rightarrow> addr option outcome" where
  "Wei s e = Units s e"

definition KWei :: "store \<Rightarrow> addr option \<Rightarrow> Decimal outcome" where
  "KWei s e = ScaledValue s e 3"

definition MWei :: "store \<Rightarrow> addr option \<Rightarrow> Decimal outcome" where
  "MWei s e = ScaledValue s e 6"

definition GWei :: "store \<Rightarrow> addr option \<Rightarrow> Decimal outcome" where
  "GWei s e = ScaledValue s e 9"

definition Eth :: "store \<Rightarrow> addr option \<Rightarrow> Decimal outcome" where
  "Eth s e = Coins s e"

section \<open>Vocabulary of the specification\<close>

text \<open>
  Go's memory safety as an invariant of the store: a \<open>value\<close> field is \<open>nil\<close> or
  points to an allocated \<open>big.Int\<close>.
\<close>

definition int_ptr_ok :: "store \<Rightarrow> addr option \<Rightarrow> bool" where
  "int_ptr_ok s p = (case p of None \<Rightarrow> True | Some a \<Rightarrow> a < length (ints s))"

definition wf_store :: "store \<Rightarrow> bool" where
  "wf_store s = list_all (\<lambda>c. int_ptr_ok s (value_ptr c)) (coins s)"

text \<open>
  \<open>amount s v D u\<close>: in store \<open>s\<close>, \<open>v\<close> is an Amount of currency \<open>D\<close> with \<open>u\<close> units.
  \<open>extends s s'\<close>: every object allocated in \<open>s\<close> is unchanged in \<open>s'\<close>.
\<close>

definition amount :: "store \<Rightarrow> addr option \<Rightarrow> ValueDefinition \<Rightarrow> int \<Rightarrow> bool" where
  "amount s v D u = (def_of s v = Return D \<and> units_of s v = Return u)"

definition extends :: "store \<Rightarrow> store \<Rightarrow> bool" where
  "extends s s' =
     (take (length (ints s)) (ints s') = ints s \<and> take (length (coins s)) (coins s') = coins s)"

text \<open>
  Decimals as rationals, and the two roundings of the specification's words: to the
  nearest integer with ties away from zero, and toward zero.
\<close>

definition pow10 :: "int \<Rightarrow> rat" where
  "pow10 e = (if 0 \<le> e then 10 ^ nat e else 1 / 10 ^ nat (- e))"

definition rat_of_Decimal :: "Decimal \<Rightarrow> rat" where
  "rat_of_Decimal d = of_int (dvalue d) * pow10 (sint (dexp d))"

definition round_half_away :: "rat \<Rightarrow> int" where
  "round_half_away x = (if 0 \<le> x then \<lfloor>x + 1 / 2\<rfloor> else - \<lfloor>- x + 1 / 2\<rfloor>)"


definition round_places :: "int \<Rightarrow> rat \<Rightarrow> rat" where
  "round_places p x = of_int (round_half_away (x * pow10 p)) * pow10 (- p)"

definition hex_digits :: string where
  "hex_digits = ''0123456789abcdefABCDEF''"

text \<open>
  \<open>result_units\<close> reads the units of the Amount an operation returned.
  \<open>example_store\<close> holds five Amounts: 7, 2, 0 and -7 units of ETH at the addresses
  0, 1, 2 and 4, and 5 units of an 8-digit currency BTC at address 3.
\<close>

definition result_units :: "(addr option \<times> store) outcome \<Rightarrow> int outcome" where
  "result_units x = obind x (\<lambda>(r, s'). units_of s' r)"

definition btcDefinition :: ValueDefinition where
  "btcDefinition = \<lparr>CoinName = ''BTC'', UnitExp = 8\<rparr>"

definition example_store :: store where
  "example_store =
     \<lparr>ints = [7, 2, 0, 5, - 7],
      coins = [\<lparr>def = ethDefinition, value_ptr = Some 0\<rparr>,
               \<lparr>def = ethDefinition, value_ptr = Some 1\<rparr>,
               \<lparr>def = ethDefinition, value_ptr = Some 2\<rparr>,
               \<lparr>def = btcDefinition, value_ptr = Some 3\<rparr>,
               \<lparr>def = ethDefinition, value_ptr = Some 4\<rparr>]\<rparr>"

text \<open>
  \<open>framed s v r s'\<close>: an operation on the receiver \<open>v\<close> took the store from \<open>s\<close> to
  \<open>s'\<close> and returned \<open>r\<close>, a \<open>CoinValue\<close> that was not allocated in \<open>s\<close>, holding a
  \<open>big.Int\<close> that was not allocated in \<open>s\<close>, with the definition of \<open>v\<close>; everything
  allocated in \<open>s\<close> is unchanged, the receiver in particular.
\<close>

definition framed :: "store \<Rightarrow> addr option \<Rightarrow> addr option \<Rightarrow> store \<Rightarrow> bool" where
  "framed s v r s' =
     (extends s s' \<and> wf_store s' \<and> load_cv s r = Panic InvalidMemoryAddress
      \<and> Units s' r = Return (Some (length (ints s)))
      \<and> def_of s' r = def_of s v \<and> def_of s' v = def_of s v \<and> units_of s' v = units_of s v)"

definition example_sum :: store where
  "example_sum = example_store\<lparr>ints := ints example_store @ [9],
       coins := coins example_store @ [\<lparr>def = ethDefinition, value_ptr = Some 5\<rparr>]\<rparr>"

definition example_product :: store where
  "example_product = example_store\<lparr>ints := ints example_store @ [14],
       coins := coins example_store @ [\<lparr>def = ethDefinition, value_ptr = Some 5\<rparr>]\<rparr>"

text \<open>
  The address format in the specification's words: 42 characters, the literal \<open>0x\<close> and
  then 40 hexadecimal digits of either case.
\<close>

definition hex_address :: "string \<Rightarrow> bool" where
  "hex_address s =
     (length s = 42 \<and> take 2 s = ''0x'' \<and> list_all (\<lambda>c. c \<in> set hex_digits) (drop 2 s))"

definition example_client :: Client where
  "example_client = \<lparr>CodeAt = (\<lambda>a. ([96, 128], None))\<rparr>"

definition failing_client :: Client where
  "failing_client = \<lparr>CodeAt = (\<lambda>a. ([], Some (ErrorsNew ''connection refused'')))\<rparr>"

definition example_address :: string where
  "example_address = ''0x52908400098527886E0F7030069857D2E4169EE7''"

text \<open>
  \<open>round_quo a b\<close> is rounding to the nearest integer, ties away from zero, written on
  the truncated quotient and remainder of the integers \<open>a\<close> and \<open>b\<close>. The two decimals
  are 1.9 smallest units of Ether, written in Ether and in Gwei.
\<close>

definition round_quo :: "int \<Rightarrow> int \<Rightarrow> int" where
  "round_quo a b = (if \<bar>rem_int a b\<bar> * 2 < b then quo_int a b
                    else if a < 0 then quo_int a b - 1 else quo_int a b + 1)"



text \<open>
  \<open>rounding_store\<close> holds 150 and -150 units of ETH at the addresses 0 and 1: at the
  scale 20 they are 1.5 and -1.5 units of the eighteenth decimal place, a tie.
\<close>

definition rounding_store :: store where
  "rounding_store =
     \<lparr>ints = [150, - 150],
      coins = [\<lparr>def = ethDefinition, value_ptr = Some 0\<rparr>,
               \<lparr>def = ethDefinition, value_ptr = Some 1\<rparr>]\<rparr>"

section \<open>Properties\<close>

subsection \<open>Outcomes and the store\<close>

lemma obind_Return_iff: "obind m f = Return y \<longleftrightarrow> (\<exists>x. m = Return x \<and> f x = Return y)"
  by (cases m) (simp_all add: obind_def)

lemma obind_Return [simp]: "obind (Return x) f = f x"
  by (simp add: obind_def)

lemma obind_Panic [simp]: "obind (Panic p) f = Panic p"
  by (simp add: obind_def)

lemma load_int_Return_iff:
  "load_int s p = Return n \<longleftrightarrow> (\<exists>a. p = Some a \<and> a < length (ints s) \<and> ints s ! a = n)"
  by (auto simp: load_int_def split: option.splits)

lemma load_cv_Return_iff:
  "load_cv s p = Return c \<longleftrightarrow> (\<exists>a. p = Some a \<and> a < length (coins s) \<and> coins s ! a = c)"
  by (auto simp: load_cv_def split: option.splits)

lemma amount_iff:
  "amount s v D u \<longleftrightarrow>
     (\<exists>a b. v = Some a \<and> a < length (coins s) \<and> def (coins s ! a) = D
        \<and> value_ptr (coins s ! a) = Some b \<and> b < length (ints s) \<and> ints s ! b = u)"
  by (auto simp: amount_def def_of_def units_of_def Units_def obind_Return_iff
      load_cv_Return_iff load_int_Return_iff)

lemma amount_new:
  "amount (s\<lparr>ints := ints s @ [c],
             coins := coins s @ [\<lparr>def = D, value_ptr = Some (length (ints s))\<rparr>]\<rparr>)
     (Some (length (coins s))) D c"
  by (simp add: amount_iff)

lemma wf_storeD:
  "wf_store s \<Longrightarrow> a < length (coins s) \<Longrightarrow> value_ptr (coins s ! a) = Some b
     \<Longrightarrow> b < length (ints s)"
  by (auto simp: wf_store_def list_all_length int_ptr_ok_def split: option.splits)

lemmas run_defs =
  arith_def arith_scalar_def Same_def CoinName_of_def load_cv_def new_int_def Units_def
  Int_binop_def load_int_def write_int_def new_cv_def units_of_def def_of_def amount_def

subsection \<open>Truncated and Euclidean division\<close>

lemma rem_int_eq: "rem_int x y = sgn x * (\<bar>x\<bar> mod \<bar>y\<bar>)"
proof -
  have "y * (sgn x * sgn y * (\<bar>x\<bar> div \<bar>y\<bar>)) = sgn x * (\<bar>y\<bar> * (\<bar>x\<bar> div \<bar>y\<bar>))"
    by (simp add: abs_sgn mult.commute mult.left_commute)
  moreover have "x = sgn x * \<bar>x\<bar>"
    by (simp add: sgn_mult_abs)
  ultimately have "rem_int x y = sgn x * (\<bar>x\<bar> - \<bar>y\<bar> * (\<bar>x\<bar> div \<bar>y\<bar>))"
    unfolding rem_int_def quo_int_def by (simp add: right_diff_distrib)
  then show ?thesis
    by (simp add: minus_mult_div_eq_mod)
qed

lemma div_int_euclid:
  assumes "y \<noteq> 0"
  shows "0 \<le> x - y * div_int x y \<and> x - y * div_int x y < \<bar>y\<bar>"
proof -
  let ?m = "\<bar>x\<bar> mod \<bar>y\<bar>"
  have m: "0 \<le> ?m" "?m < \<bar>y\<bar>"
    using assms by simp_all
  have r: "x - y * quo_int x y = sgn x * ?m"
    using rem_int_eq[of x y] by (simp add: rem_int_def)
  show ?thesis
  proof (cases "rem_int x y < 0")
    case False
    then have "div_int x y = quo_int x y"
      by (simp add: div_int_def Let_def)
    moreover from False have "0 \<le> sgn x * ?m"
      by (simp add: rem_int_eq)
    moreover have "sgn x * ?m \<le> ?m"
      using m by (cases "x < 0"; cases "x = 0") simp_all
    ultimately show ?thesis
      using r m by simp
  next
    case True
    then have neg: "sgn x * ?m < 0"
      by (simp add: rem_int_eq)
    then have xneg: "x < 0"
      using m by (cases "x < 0"; cases "x = 0") simp_all
    then have pos: "0 < ?m"
      using neg by simp
    have "x - y * div_int x y = sgn x * ?m + \<bar>y\<bar>"
      using True r by (cases "y < 0") (simp_all add: div_int_def Let_def algebra_simps)
    then show ?thesis
      using xneg pos m by simp
  qed
qed

lemma div_int_nonneg:
  assumes "0 \<le> x"
  shows "div_int x y = quo_int x y"
proof -
  have "0 \<le> \<bar>x\<bar> mod \<bar>y\<bar>"
    by (cases "y = 0") simp_all
  with assms have "0 \<le> sgn x * (\<bar>x\<bar> mod \<bar>y\<bar>)"
    by (simp add: sgn_if)
  then show ?thesis
    by (simp add: div_int_def Let_def rem_int_eq)
qed

subsection \<open>What the arithmetic operations return\<close>

lemma arith_Return:
  assumes "amount s v D a" "amount s w E b" "CoinName D = CoinName E" "f a b = Return c"
  shows "arith msg (Int_binop f) s v w =
     Return (Some (length (coins s)),
        s\<lparr>ints := ints s @ [c],
          coins := coins s @ [\<lparr>def = D, value_ptr = Some (length (ints s))\<rparr>]\<rparr>)"
  using assms
  by (auto simp: amount_iff arith_def Same_def CoinName_of_def load_cv_def new_int_def
      Units_def Int_binop_def load_int_def write_int_def new_cv_def nth_append)

lemma arith_Panic:
  assumes "amount s v D a" "amount s w E b" "CoinName D = CoinName E" "f a b = Panic p"
  shows "arith msg (Int_binop f) s v w = Panic p"
  using assms
  by (auto simp: amount_iff arith_def Same_def CoinName_of_def load_cv_def new_int_def
      Units_def Int_binop_def load_int_def write_int_def new_cv_def nth_append)

lemma arith_scalar_Return:
  assumes "amount s v D a" "load_int s k = Return b" "f a b = Return c"
  shows "arith_scalar (Int_binop f) s v k =
     Return (Some (length (coins s)),
        s\<lparr>ints := ints s @ [c],
          coins := coins s @ [\<lparr>def = D, value_ptr = Some (length (ints s))\<rparr>]\<rparr>)"
  using assms unfolding amount_iff load_int_Return_iff
  by (auto simp: arith_scalar_def load_cv_def new_int_def Int_binop_def load_int_def
      write_int_def new_cv_def nth_append)

lemma arith_scalar_Panic:
  assumes "amount s v D a" "load_int s k = Return b" "f a b = Panic p"
  shows "arith_scalar (Int_binop f) s v k = Panic p"
  using assms unfolding amount_iff load_int_Return_iff
  by (auto simp: arith_scalar_def load_cv_def new_int_def Int_binop_def load_int_def
      write_int_def new_cv_def nth_append)

lemma arith_mismatch:
  assumes "def_of s v = Return D" "def_of s w = Return E" "CoinName D \<noteq> CoinName E"
  shows "arith msg opn s v w = Panic (PanicString msg)"
  using assms
  by (auto simp: def_of_def obind_Return_iff load_cv_Return_iff arith_def Same_def
      CoinName_of_def load_cv_def)

lemma arith_success:
  assumes "wf_store s" "arith msg (Int_binop f) s v w = Return (r, s')"
  shows "\<exists>D a E b c. amount s v D a \<and> amount s w E b \<and> CoinName D = CoinName E
           \<and> f a b = Return c"
  using assms
  apply (clarsimp simp: amount_iff arith_def Same_def CoinName_of_def new_int_def Units_def
      Int_binop_def write_int_def new_cv_def nth_append obind_Return_iff load_cv_Return_iff
      load_int_Return_iff split: if_splits)
  apply (auto dest: wf_storeD)
  done

lemma arith_scalar_success:
  assumes "wf_store s" "int_ptr_ok s k" "arith_scalar (Int_binop f) s v k = Return (r, s')"
  shows "\<exists>D a b c. amount s v D a \<and> load_int s k = Return b \<and> f a b = Return c"
  using assms
  apply (clarsimp simp: amount_iff arith_scalar_def int_ptr_ok_def new_int_def Int_binop_def
      write_int_def new_cv_def nth_append obind_Return_iff load_cv_Return_iff
      load_int_Return_iff split: if_splits)
  apply (auto dest: wf_storeD)
  done

subsection \<open>Division\<close>

text \<open>
  C1, as the code has it. \<open>Div\<close> and \<open>DivScalar\<close> call \<open>big.Int.Div\<close>, which is
  Euclidean division: for same-currency Amounts with \<open>a\<close> and \<open>b \<noteq> 0\<close> units (and for
  a scalar \<open>b \<noteq> 0\<close>) the call returns a new Amount of the same definition whose units
  \<open>q\<close> are the one integer with \<open>0 \<le> a - b * q < \<bar>b\<bar>\<close>. This is the quotient truncated
  toward zero whenever \<open>a\<close> is not negative.
\<close>

theorem Div_euclidean:
  "(amount s v D a \<and> amount s w E b \<and> CoinName D = CoinName E \<and> b \<noteq> 0
      \<longrightarrow> (\<exists>r s' q. Div s v w = Return (r, s') \<and> amount s' r D q
             \<and> 0 \<le> a - b * q \<and> a - b * q < \<bar>b\<bar> \<and> (0 \<le> a \<longrightarrow> q = quo_int a b)))
   \<and> (amount s v D a \<and> load_int s k = Return b \<and> b \<noteq> 0
      \<longrightarrow> (\<exists>r s' q. DivScalar s v k = Return (r, s') \<and> amount s' r D q
             \<and> 0 \<le> a - b * q \<and> a - b * q < \<bar>b\<bar> \<and> (0 \<le> a \<longrightarrow> q = quo_int a b)))"
proof (intro conjI impI)
  assume h: "amount s v D a \<and> amount s w E b \<and> CoinName D = CoinName E \<and> b \<noteq> 0"
  then have "Div s v w = Return (Some (length (coins s)),
        s\<lparr>ints := ints s @ [div_int a b],
          coins := coins s @ [\<lparr>def = D, value_ptr = Some (length (ints s))\<rparr>]\<rparr>)"
    unfolding Div_def Int_Div_def
    by (intro arith_Return[where a=a and b=b and E=E]) simp_all
  with h show "\<exists>r s' q. Div s v w = Return (r, s') \<and> amount s' r D q
             \<and> 0 \<le> a - b * q \<and> a - b * q < \<bar>b\<bar> \<and> (0 \<le> a \<longrightarrow> q = quo_int a b)"
    using div_int_euclid[of b a] div_int_nonneg[of a b]
      amount_new[where s=s and c="div_int a b" and D=D]
    by auto
next
  assume h: "amount s v D a \<and> load_int s k = Return b \<and> b \<noteq> 0"
  then have "DivScalar s v k = Return (Some (length (coins s)),
        s\<lparr>ints := ints s @ [div_int a b],
          coins := coins s @ [\<lparr>def = D, value_ptr = Some (length (ints s))\<rparr>]\<rparr>)"
    unfolding DivScalar_def Int_Div_def
    by (intro arith_scalar_Return[where a=a and b=b]) simp_all
  with h show "\<exists>r s' q. DivScalar s v k = Return (r, s') \<and> amount s' r D q
             \<and> 0 \<le> a - b * q \<and> a - b * q < \<bar>b\<bar> \<and> (0 \<le> a \<longrightarrow> q = quo_int a b)"
    using div_int_euclid[of b a] div_int_nonneg[of a b]
      amount_new[where s=s and c="div_int a b" and D=D]
    by auto
qed

theorem Div_euclidean_witness:
  "\<exists>r s' q. Div example_store (Some 0) (Some 1) = Return (r, s')
      \<and> amount s' r ethDefinition q
      \<and> 0 \<le> 7 - 2 * q \<and> 7 - 2 * q < 2 \<and> q = quo_int 7 2"
  using Div_euclidean [of example_store "Some 0" ethDefinition 7 "Some 1" ethDefinition 2]
  by (simp add: example_store_def run_defs ethDefinition_def)

text \<open>
  C1 as the specification states it fails: -7 units divided by 2 units gives -4 units,
  where truncation toward zero gives -3.
\<close>

theorem Div_not_truncating:
  "result_units (Div example_store (Some 4) (Some 1)) = Return (- 4)
   \<and> result_units (DivScalar example_store (Some 4) (Some 1)) = Return (- 4)
   \<and> quo_int (- 7) 2 = - 3"
  by (simp add: example_store_def result_units_def Div_def DivScalar_def Int_Div_def run_defs
      ethDefinition_def div_int_def quo_int_def rem_int_def)

text \<open>
  C3. Dividing an Amount by a same-currency Amount of zero units, or by a scalar that
  is zero, never returns: \<open>big.Int.Div\<close> panics with "division by zero".
\<close>

theorem division_by_zero_panics:
  "(amount s v D a \<and> amount s w E 0 \<and> CoinName D = CoinName E
      \<longrightarrow> Div s v w = Panic (PanicString ''division by zero''))
   \<and> (amount s v D a \<and> load_int s k = Return 0
      \<longrightarrow> DivScalar s v k = Panic (PanicString ''division by zero''))"
  unfolding Div_def DivScalar_def Int_Div_def
  by (auto intro: arith_Panic arith_scalar_Panic)

theorem division_by_zero_panics_witness:
  "Div example_store (Some 0) (Some 2) = Panic (PanicString ''division by zero'')
   \<and> DivScalar example_store (Some 0) (Some 2) = Panic (PanicString ''division by zero'')"
  using division_by_zero_panics
    [of example_store "Some 0" ethDefinition 7 "Some 2" ethDefinition "Some 2"]
  by (simp add: example_store_def run_defs ethDefinition_def)

subsection \<open>Currency mismatch\<close>

text \<open>
  C2, as the code has it. When the currency names of the two Amounts differ, each of
  \<open>Add\<close>, \<open>Sub\<close>, \<open>Mul\<close> and \<open>Div\<close> panics with its own message and computes nothing.
  The failure is a panic, not an error value handed to the caller: the methods return a
  \<open>Value\<close> only.
\<close>

theorem currency_mismatch_panics:
  assumes "def_of s v = Return D" and "def_of s w = Return E" and "CoinName D \<noteq> CoinName E"
  shows "Add s v w = Panic (PanicString ''cannot add values of different coins'')
       \<and> Sub s v w = Panic (PanicString ''cannot subtract values of different coins'')
       \<and> Mul s v w = Panic (PanicString ''cannot multiply values of different coins'')
       \<and> Div s v w = Panic (PanicString ''cannot divide values of different coins'')"
  unfolding Add_def Sub_def Mul_def Div_def using assms by (simp add: arith_mismatch)

theorem currency_mismatch_panics_witness:
  "Add example_store (Some 0) (Some 3) =
     Panic (PanicString ''cannot add values of different coins'')
   \<and> Div example_store (Some 0) (Some 3) =
     Panic (PanicString ''cannot divide values of different coins'')"
  using currency_mismatch_panics [of example_store "Some 0" ethDefinition "Some 3" btcDefinition]
  by (simp add: example_store_def def_of_def load_cv_def ethDefinition_def btcDefinition_def)

text \<open>
  C2 as the specification states it fails: adding 5 BTC units to 7 ETH units aborts the
  call with a panic instead of returning a typed error.
\<close>

theorem mismatch_is_a_panic:
  "panicked (Add example_store (Some 0) (Some 3))"
  by (simp add: example_store_def Add_def arith_def Same_def CoinName_of_def load_cv_def
      ethDefinition_def btcDefinition_def)

subsection \<open>Construction from raw units\<close>

text \<open>
  C6. \<open>NewCoinValue\<close> of a pointer to the integer \<open>u\<close> is an Amount of exactly \<open>u\<close>
  units (its \<open>Units()\<close> is the very pointer it was given, nothing is rounded or
  copied), and \<open>NewCoinValue\<close> of \<open>nil\<close> is an Amount of exactly zero units.
\<close>

theorem NewCoinValue_units_exact:
  "(load_int s p = Return u \<longrightarrow>
      (case NewCoinValue D s p of (cv, s') \<Rightarrow>
         Units s' cv = Return p \<and> amount s' cv D u \<and> extends s s'))
   \<and> (case NewCoinValue D s None of (cv, s') \<Rightarrow> amount s' cv D 0 \<and> extends s s')"
  by (auto simp: load_int_Return_iff NewCoinValue_def new_cv_def new_int_def amount_iff
      extends_def Units_def load_cv_def)

theorem NewCoinValue_units_exact_witness:
  "load_int example_store (Some 0) = Return 7
   \<and> units_of (snd (NewCoinValue ethDefinition example_store (Some 0)))
        (fst (NewCoinValue ethDefinition example_store (Some 0))) = Return 7"
  using NewCoinValue_units_exact [of example_store "Some 0" 7 ethDefinition]
  by (simp add: example_store_def load_int_def amount_def split: prod.splits)

subsection \<open>The frame of the arithmetic operations\<close>

lemma extends_new:
  "extends s (s\<lparr>ints := ints s @ xs, coins := coins s @ ys\<rparr>)"
  by (simp add: extends_def)

lemma wf_store_new:
  assumes "wf_store s"
  shows "wf_store (s\<lparr>ints := ints s @ [c],
             coins := coins s @ [\<lparr>def = D, value_ptr = Some (length (ints s))\<rparr>]\<rparr>)"
  using assms
  by (auto simp: wf_store_def list_all_iff int_ptr_ok_def split: option.splits)

lemma amount_keep:
  assumes "amount s v D a"
  shows "amount (s\<lparr>ints := ints s @ xs, coins := coins s @ ys\<rparr>) v D a"
  using assms by (auto simp: amount_iff nth_append)

lemma load_int_keep:
  assumes "load_int s k = Return b"
  shows "load_int (s\<lparr>ints := ints s @ xs, coins := coins s @ ys\<rparr>) k = Return b"
  using assms by (auto simp: load_int_Return_iff nth_append)

lemma framed_new:
  assumes "wf_store s" "amount s v D a"
  shows "framed s v (Some (length (coins s)))
     (s\<lparr>ints := ints s @ [c],
        coins := coins s @ [\<lparr>def = D, value_ptr = Some (length (ints s))\<rparr>]\<rparr>)"
proof -
  let ?s' = "s\<lparr>ints := ints s @ [c],
        coins := coins s @ [\<lparr>def = D, value_ptr = Some (length (ints s))\<rparr>]\<rparr>"
  have "amount ?s' v D a" using assms(2) by (rule amount_keep)
  moreover have "amount ?s' (Some (length (coins s))) D c" by (rule amount_new)
  moreover have "Units ?s' (Some (length (coins s))) = Return (Some (length (ints s)))"
    by (simp add: Units_def load_cv_def)
  moreover have "load_cv s (Some (length (coins s))) = Panic InvalidMemoryAddress"
    by (simp add: load_cv_def)
  ultimately show ?thesis
    using assms wf_store_new[OF assms(1)] extends_new[where s=s and xs="[c]"]
    by (simp add: framed_def amount_def)
qed

lemma arith_framed:
  assumes "wf_store s" "arith msg (Int_binop f) s v w = Return (r, s')"
  shows "framed s v r s' \<and> def_of s' w = def_of s w \<and> units_of s' w = units_of s w"
proof -
  from arith_success[OF assms] obtain D a E b c where
    h: "amount s v D a" "amount s w E b" "CoinName D = CoinName E" "f a b = Return c"
    by blast
  from arith_Return[where f=f and msg=msg, OF h] assms(2)
  have r: "r = Some (length (coins s))"
    and s': "s' = s\<lparr>ints := ints s @ [c],
          coins := coins s @ [\<lparr>def = D, value_ptr = Some (length (ints s))\<rparr>]\<rparr>"
    by simp_all
  have "amount s' w E b" unfolding s' using h(2) by (rule amount_keep)
  with h(2) have "def_of s' w = def_of s w \<and> units_of s' w = units_of s w"
    by (simp add: amount_def)
  moreover have "framed s v r s'" unfolding r s' using assms(1) h(1) by (rule framed_new)
  ultimately show ?thesis by simp
qed

lemma arith_scalar_framed:
  assumes "wf_store s" "int_ptr_ok s k" "arith_scalar (Int_binop f) s v k = Return (r, s')"
  shows "framed s v r s' \<and> load_int s' k = load_int s k"
proof -
  from arith_scalar_success[OF assms] obtain D a b c where
    h: "amount s v D a" "load_int s k = Return b" "f a b = Return c"
    by blast
  from arith_scalar_Return[where f=f, OF h] assms(3)
  have r: "r = Some (length (coins s))"
    and s': "s' = s\<lparr>ints := ints s @ [c],
          coins := coins s @ [\<lparr>def = D, value_ptr = Some (length (ints s))\<rparr>]\<rparr>"
    by simp_all
  have "load_int s' k = Return b" unfolding s' using h(2) by (rule load_int_keep)
  moreover have "framed s v r s'" unfolding r s' using assms(1) h(1) by (rule framed_new)
  ultimately show ?thesis using h(2) by simp
qed

text \<open>
  C7. In a well-formed store, every call of \<open>Add\<close>, \<open>Sub\<close>, \<open>Mul\<close>, \<open>Div\<close>,
  \<open>MulScalar\<close> or \<open>DivScalar\<close> that returns, returns a newly allocated Amount with the
  definition of the receiver and a newly allocated \<open>big.Int\<close>, and leaves every object
  that existed before unchanged: the definition and the units of the receiver and of the
  other operand, and the scalar, read as before.
\<close>

theorem arithmetic_frame:
  assumes "wf_store s"
  shows "(opn \<in> {Add, Sub, Mul, Div} \<and> opn s v w = Return (r, s')
            \<longrightarrow> framed s v r s' \<and> def_of s' w = def_of s w \<and> units_of s' w = units_of s w)
       \<and> (sc \<in> {MulScalar, DivScalar} \<and> int_ptr_ok s k \<and> sc s v k = Return (r, s')
            \<longrightarrow> framed s v r s' \<and> load_int s' k = load_int s k)"
  using assms
  by (auto simp: Add_def Sub_def Mul_def Div_def MulScalar_def DivScalar_def
      Int_Add_def Int_Sub_def Int_Mul_def Int_Div_def
      dest: arith_framed arith_scalar_framed)

theorem arithmetic_frame_witness:
  "wf_store example_store
   \<and> Add example_store (Some 0) (Some 1) = Return (Some 5, example_sum)
   \<and> framed example_store (Some 0) (Some 5) example_sum
   \<and> units_of example_sum (Some 1) = Return 2
   \<and> int_ptr_ok example_store (Some 1)
   \<and> MulScalar example_store (Some 0) (Some 1) = Return (Some 5, example_product)
   \<and> framed example_store (Some 0) (Some 5) example_product
   \<and> load_int example_product (Some 1) = Return 2"
proof -
  have wf: "wf_store example_store"
    by (simp add: example_store_def wf_store_def int_ptr_ok_def)
  have a: "Add example_store (Some 0) (Some 1) = Return (Some 5, example_sum)"
    by (simp add: example_store_def example_sum_def Add_def Int_Add_def run_defs ethDefinition_def)
  have m: "MulScalar example_store (Some 0) (Some 1) = Return (Some 5, example_product)"
    by (simp add: example_store_def example_product_def MulScalar_def Int_Mul_def run_defs ethDefinition_def)
  have p: "int_ptr_ok example_store (Some 1)"
    by (simp add: example_store_def int_ptr_ok_def)
  have u: "units_of example_store (Some 1) = Return 2" "load_int example_store (Some 1) = Return 2"
    by (simp_all add: example_store_def run_defs)
  show ?thesis
    using arithmetic_frame [OF wf, of Add "Some 0" "Some 1" "Some 5" example_sum MulScalar "Some 1"]
      arithmetic_frame [OF wf, of Add "Some 0" "Some 1" "Some 5" example_product MulScalar "Some 1"]
      wf a m p u
    by simp
qed

subsection \<open>Address format\<close>

lemma in_class_hex:
  "in_class [(CHR ''0'', CHR ''9''), (CHR ''a'', CHR ''f''), (CHR ''A'', CHR ''F'')]
     = (\<lambda>c. c \<in> set hex_digits)"
proof
  fix c
  let ?n = "of_char c :: nat"
  have eq: "\<And>d. c = d \<longleftrightarrow> ?n = of_char d" by simp
  have "c \<in> set hex_digits \<longleftrightarrow> ?n \<in> {48,49,50,51,52,53,54,55,56,57,97,98,99,100,101,102,65,66,67,68,69,70}"
    unfolding hex_digits_def by (simp add: eq)
  also have "\<dots> \<longleftrightarrow> (48 \<le> ?n \<and> ?n \<le> 57 \<or> 97 \<le> ?n \<and> ?n \<le> 102 \<or> 65 \<le> ?n \<and> ?n \<le> 70)"
    by (simp only: insert_iff empty_iff) arith
  finally show "in_class [(CHR ''0'', CHR ''9''), (CHR ''a'', CHR ''f''), (CHR ''A'', CHR ''F'')] c
     \<longleftrightarrow> c \<in> set hex_digits"
    by (simp add: in_class_def)
qed

lemma run_Repeat_Class:
  "run (Repeat n (Class rs)) (b, cs) =
     (if n \<le> length cs \<and> list_all (in_class rs) (take n cs)
      then [(if n = 0 then b else False, drop n cs)] else [])"
proof (induction n arbitrary: b cs)
  case 0
  then show ?case by simp
next
  case (Suc n)
  show ?case
  proof (cases cs)
    case Nil
    then show ?thesis by simp
  next
    case (Cons x xs)
    then show ?thesis using Suc.IH[of False xs] by (simp split: if_splits)
  qed
qed

lemma hex_address_Cons2:
  "hex_address (x # y # ys) \<longleftrightarrow>
     x = CHR ''0'' \<and> y = CHR ''x'' \<and> length ys = 40 \<and> list_all (\<lambda>c. c \<in> set hex_digits) ys"
  by (auto simp: hex_address_def numeral_2_eq_2)

lemma run_addrRegex:
  "run addrRegex (b, s) = (if b \<and> hex_address s then [(False, [])] else [])"
proof (cases s)
  case Nil
  then show ?thesis by (simp add: addrRegex_def hex_address_def)
next
  case s1: (Cons x xs)
  show ?thesis
  proof (cases xs)
    case Nil
    then show ?thesis using s1 by (simp add: addrRegex_def hex_address_def)
  next
    case (Cons y ys)
    have "run (Seq (Repeat 40 (Class [(CHR ''0'', CHR ''9''), (CHR ''a'', CHR ''f''), (CHR ''A'', CHR ''F'')])) EndText) (False, ys)
       = (if length ys = 40 \<and> list_all (\<lambda>c. c \<in> set hex_digits) ys then [(False, [])] else [])"
      by (auto simp: run_Repeat_Class in_class_hex)
    then show ?thesis using s1 Cons by (auto simp: addrRegex_def hex_address_Cons2)
  qed
qed

lemma MatchString_addrRegex: "MatchString addrRegex s = hex_address s"
proof -
  have "MatchString addrRegex s \<longleftrightarrow>
          (\<exists>i\<in>set [0..<Suc (length s)]. run addrRegex (i = 0, drop i s) \<noteq> [])"
    by (simp add: MatchString_def list_ex_iff)
  also have "\<dots> \<longleftrightarrow> run addrRegex (True, s) \<noteq> []"
    unfolding run_addrRegex by auto
  finally show ?thesis by (simp add: run_addrRegex)
qed

text \<open>
  C8. \<open>IsValidAddress\<close> holds of exactly the strings of 42 characters that are \<open>0x\<close>
  followed by 40 hexadecimal digits of either case.
\<close>

theorem IsValidAddress_iff: "IsValidAddress s = hex_address s"
  unfolding IsValidAddress_def by (rule MatchString_addrRegex)

theorem IsValidAddress_scenarios:
  "IsValidAddress ''0x52908400098527886E0F7030069857D2E4169EE7''
   \<and> \<not> IsValidAddress ''0x52908400098527886E0F7030069857D2E4169EE''
   \<and> \<not> IsValidAddress ''not-hex''"
  using IsValidAddress_iff [of "''0x52908400098527886E0F7030069857D2E4169EE7''"]
    IsValidAddress_iff [of "''0x52908400098527886E0F7030069857D2E4169EE''"]
    IsValidAddress_iff [of "''not-hex''"]
  by (simp add: hex_digits_def hex_address_def)

subsection \<open>The contract check\<close>

text \<open>
  C9. On an address that is not valid, \<open>IsSmartContractCtx\<close> returns \<open>false\<close> with the
  error "invalid address" and the trace of network calls is unchanged. On a valid
  address it asks the client once; when the client answers without error, the result is
  \<open>true\<close> exactly when the bytecode is not empty, and when the client fails, its error
  is wrapped and returned.
\<close>

theorem IsSmartContractCtx_checks_first:
  "(\<not> IsValidAddress a \<longrightarrow>
      IsSmartContractCtx calls a client =
        Return ((False, Some (ErrorsNew ''invalid address'')), calls))
   \<and> (IsValidAddress a \<and> client = Some cl \<and> CodeAt cl (HexToAddress a) = (code, None) \<longrightarrow>
      IsSmartContractCtx calls a client = Return ((code \<noteq> [], None), calls @ [HexToAddress a]))
   \<and> (IsValidAddress a \<and> client = Some cl \<and> CodeAt cl (HexToAddress a) = (code, Some e) \<longrightarrow>
      IsSmartContractCtx calls a client =
        Return ((False, Some (Errorf ''failed to get bytecode: '' e)), calls @ [HexToAddress a]))"
  by (simp add: IsSmartContractCtx_def)

theorem IsSmartContractCtx_checks_first_witness:
  "IsSmartContractCtx [] ''0x11'' (Some example_client) =
      Return ((False, Some (ErrorsNew ''invalid address'')), [])
   \<and> IsSmartContractCtx [] example_address (Some example_client) =
      Return ((True, None), [HexToAddress example_address])
   \<and> IsSmartContractCtx [] example_address (Some failing_client) =
      Return ((False, Some (Errorf ''failed to get bytecode: '' (ErrorsNew ''connection refused''))),
              [HexToAddress example_address])"
proof -
  have v: "\<not> IsValidAddress ''0x11''" "IsValidAddress example_address"
    by (simp_all add: IsValidAddress_def MatchString_addrRegex hex_address_def hex_digits_def
        example_address_def)
  show ?thesis
    using IsSmartContractCtx_checks_first
        [where a="''0x11''" and calls="[]" and client="Some example_client"]
      IsSmartContractCtx_checks_first
        [where a=example_address and calls="[]" and client="Some example_client"
           and cl=example_client and code="[96, 128]"]
      IsSmartContractCtx_checks_first
        [where a=example_address and calls="[]" and client="Some failing_client"
           and cl=failing_client and code="[]" and e="ErrorsNew ''connection refused''"]
      v
    by (simp add: example_client_def failing_client_def)
qed

subsection \<open>Whole coins are the scaled value at the unit exponent\<close>

text \<open>
  C10. \<open>Coins()\<close> is \<open>ScaledValue(UnitExp())\<close>: for every receiver both calls have the
  same outcome, the same decimal or the same panic.
\<close>

theorem Coins_is_ScaledValue:
  "Coins s v = obind (def_of s v) (\<lambda>D. ScaledValue s v (UnitExp D))
   \<and> (def_of s v = Return D \<longrightarrow> Coins s v = ScaledValue s v (UnitExp D))"
  by (cases "load_cv s v") (auto simp: Coins_def ScaledValue_def def_of_def)

theorem Coins_is_ScaledValue_witness:
  "def_of example_store (Some 0) = Return ethDefinition
   \<and> Coins example_store (Some 0) = ScaledValue example_store (Some 0) 18"
  using Coins_is_ScaledValue [of example_store "Some 0" ethDefinition]
  by (simp add: example_store_def def_of_def load_cv_def ethDefinition_def)

subsection \<open>Powers of ten, truncation and rounding\<close>

lemma pow10_powi: "pow10 e = 10 powi e"
  by (simp add: pow10_def power_int_def field_simps)

lemma pow10_add: "pow10 (a + b) = pow10 a * pow10 b"
  by (simp add: pow10_powi power_int_add)

lemma pow10_nat: "pow10 (int n) = 10 ^ n"
  by (simp add: pow10_def)

lemma pow10_neg_nat: "pow10 (- int n) = 1 / 10 ^ n"
  by (simp add: pow10_powi power_int_minus field_simps)

lemma pow10_pos: "0 < pow10 e"
  by (simp add: pow10_def)

lemma quo_int_nonneg: "0 \<le> a \<Longrightarrow> 0 < b \<Longrightarrow> quo_int a b = a div b"
  by (cases "a = 0") (simp_all add: quo_int_def)

lemma quo_int_neg: "quo_int (- a) b = - quo_int a b"
  by (simp add: quo_int_def sgn_minus)

lemma rem_int_neg: "rem_int (- a) b = - rem_int a b"
  by (simp add: rem_int_def quo_int_neg)

lemma rem_int_nonneg: "0 \<le> a \<Longrightarrow> 0 < b \<Longrightarrow> rem_int a b = a mod b"
  by (simp add: rem_int_def quo_int_nonneg minus_mult_div_eq_mod)


lemma floor_half: "\<lfloor>(1::rat) / 2\<rfloor> = 0"
  by linarith

lemma round_half_away_neg: "round_half_away (- x) = - round_half_away x"
  by (cases "x = 0") (auto simp: round_half_away_def floor_half)


lemma round_half_away_of_int [simp]: "round_half_away (of_int n) = n"
proof -
  have "\<lfloor>(of_int n :: rat) + 1 / 2\<rfloor> = n" "\<lfloor>- (of_int n :: rat) + 1 / 2\<rfloor> = - n"
    by linarith+
  then show ?thesis by (simp add: round_half_away_def)
qed



lemma half_up_div:
  fixes a b :: int
  assumes "0 < b"
  shows "(2 * a + b) div (2 * b) = (if (a mod b) * 2 < b then a div b else a div b + 1)"
proof -
  define q where "q = a div b"
  define r where "r = a mod b"
  have a: "a = b * q + r" by (simp add: q_def r_def)
  have r: "0 \<le> r" "r < b" using assms by (simp_all add: r_def)
  show ?thesis
  proof (cases "r * 2 < b")
    case True
    have "2 * a + b = (2 * b) * q + (2 * r + b)" by (simp add: a algebra_simps)
    then have "(2 * a + b) div (2 * b) = q"
      by (rule int_div_pos_eq) (use r True in simp_all)
    with True show ?thesis by (simp add: q_def r_def)
  next
    case False
    have "2 * a + b = (2 * b) * (q + 1) + (2 * r - b)" by (simp add: a algebra_simps)
    then have "(2 * a + b) div (2 * b) = q + 1"
      by (rule int_div_pos_eq) (use r False in simp_all)
    with False show ?thesis by (simp add: q_def r_def)
  qed
qed

lemma round_div_nonneg:
  assumes "0 \<le> a" "0 < b"
  shows "round_half_away (of_int a / of_int b) = round_quo a b"
proof -
  have "(of_int a :: rat) / of_int b + 1 / 2 = of_int (2 * a + b) / of_int (2 * b)"
    using assms by (simp add: field_simps)
  then have "\<lfloor>(of_int a :: rat) / of_int b + 1 / 2\<rfloor> = (2 * a + b) div (2 * b)"
    by (simp only: floor_divide_of_int_eq)
  moreover have "0 \<le> (of_int a :: rat) / of_int b" using assms by simp
  moreover have "\<bar>a mod b\<bar> = a mod b" using assms by simp
  ultimately show ?thesis
    using assms half_up_div[of b a]
    by (simp add: round_half_away_def round_quo_def quo_int_nonneg rem_int_nonneg)
qed

lemma round_quo_neg:
  assumes "a \<noteq> 0"
  shows "round_quo (- a) b = - round_quo a b"
proof -
  have "(- a < 0) = (\<not> a < 0)" using assms by auto
  then show ?thesis
    by (simp add: round_quo_def quo_int_neg rem_int_neg)
qed

lemma round_div:
  assumes "0 < b"
  shows "round_half_away (of_int a / of_int b) = round_quo a b"
proof (cases "0 \<le> a")
  case True
  then show ?thesis using assms by (rule round_div_nonneg)
next
  case False
  then have "round_half_away (of_int (- a) / of_int b) = round_quo (- a) b"
    using assms by (intro round_div_nonneg) simp_all
  moreover have "round_quo (- a) b = - round_quo a b"
    using False by (intro round_quo_neg) simp
  ultimately show ?thesis
    using round_half_away_neg[of "of_int a / of_int b"] by simp
qed

subsection \<open>Exponents as 32-bit integers\<close>

lemma sint32_bounds: "- 2147483648 \<le> sint (w :: 32 word)" "sint (w :: 32 word) \<le> 2147483647"
  using sint_ge[of w] sint_lt[of w] by simp_all

lemma sint32_of_int:
  "- 2147483648 \<le> x \<Longrightarrow> x \<le> 2147483647 \<Longrightarrow> sint (word_of_int x :: 32 word) = x"
  by (simp add: sint_sbintrunc' signed_take_bit_int_eq_self)

lemma sint32_minus: "- 2147483648 < sint p \<Longrightarrow> sint (- p :: 32 word) = - sint p"
  using sint32_bounds[of p] by (simp add: sint_word_minus signed_take_bit_int_eq_self)






subsection \<open>Construction from decimals\<close>








subsection \<open>Decimal accessors\<close>

lemma quo_int_1 [simp]: "quo_int a 1 = a"
  by (simp add: quo_int_def sgn_mult_abs)

lemma rem_int_1 [simp]: "rem_int a 1 = 0"
  by (simp add: rem_int_def)

lemma DivRound_small:
  fixes p x :: "32 word"
  assumes p: "- 2147483648 < sint p"
    and lo: "- 2147483648 \<le> sint p - sint x"
    and neg: "sint p - sint x < 0"
  shows "DivRound \<lparr>dvalue = u, dexp = 0\<rparr> (Decimal_New 1 x) p =
           Return \<lparr>dvalue = round_quo u (10 ^ nat (sint x - sint p)), dexp = - p\<rparr>"
proof -
  let ?bb = "(10::int) ^ nat (sint x - sint p)"
  have mp: "sint (- p) = - sint p" using p by (rule sint32_minus)
  have ne: "p \<noteq> x" using neg by auto
  have qr: "Decimal_QuoRem \<lparr>dvalue = u, dexp = 0\<rparr> \<lparr>dvalue = 1, dexp = x\<rparr> p =
      Return (\<lparr>dvalue = quo_int u ?bb, dexp = - p\<rparr>, \<lparr>dvalue = rem_int u ?bb, dexp = 0\<rparr>)"
    using lo neg by (simp add: Decimal_QuoRem_def Let_def mp)
  have cmp: "Decimal_Cmp \<lparr>dvalue = \<bar>rem_int u ?bb\<bar> * 2, dexp = p\<rparr> (Decimal_Abs \<lparr>dvalue = 1, dexp = x\<rparr>)
      = cmp_int (\<bar>rem_int u ?bb\<bar> * 2) ?bb"
    using neg ne by (simp add: Decimal_Cmp_def Decimal_Abs_def Decimal_New_def RescalePair_def
        rescale_def Let_def)
  have ulp: "Decimal_Sub \<lparr>dvalue = q, dexp = - p\<rparr> \<lparr>dvalue = 1, dexp = - p\<rparr> = \<lparr>dvalue = q - 1, dexp = - p\<rparr>"
    "Decimal_Add \<lparr>dvalue = q, dexp = - p\<rparr> \<lparr>dvalue = 1, dexp = - p\<rparr> = \<lparr>dvalue = q + 1, dexp = - p\<rparr>"
    for q
    by (simp_all add: Decimal_Sub_def Decimal_Add_def Decimal_New_def RescalePair_def)
  show ?thesis
    unfolding Decimal_New_def
    by (simp add: DivRound_def Decimal_New_def qr cmp ulp Let_def cmp_int_def round_quo_def)
qed

lemma DivRound_large:
  fixes p x :: "32 word"
  assumes p: "- 2147483648 < sint p"
    and hi: "sint p - sint x \<le> 2147483647"
    and nonneg: "0 \<le> sint p - sint x"
  shows "DivRound \<lparr>dvalue = u, dexp = 0\<rparr> (Decimal_New 1 x) p =
           Return \<lparr>dvalue = u * 10 ^ nat (sint p - sint x), dexp = - p\<rparr>"
proof -
  have mp: "sint (- p) = - sint p" using p by (rule sint32_minus)
  have qr: "Decimal_QuoRem \<lparr>dvalue = u, dexp = 0\<rparr> \<lparr>dvalue = 1, dexp = x\<rparr> p =
      Return (\<lparr>dvalue = u * 10 ^ nat (sint p - sint x), dexp = - p\<rparr>, \<lparr>dvalue = 0, dexp = - p + x\<rparr>)"
    using hi nonneg by (simp add: Decimal_QuoRem_def Let_def mp)
  have cmp: "Decimal_Cmp \<lparr>dvalue = 0, dexp = x\<rparr> (Decimal_Abs \<lparr>dvalue = 1, dexp = x\<rparr>) = - 1"
    by (simp add: Decimal_Cmp_def Decimal_Abs_def Decimal_New_def cmp_int_def)
  show ?thesis
    unfolding Decimal_New_def
    by (simp add: DivRound_def Decimal_New_def qr cmp Let_def)
qed

lemma DivRound_rounds:
  fixes p x :: "32 word"
  assumes p: "- 2147483648 < sint p"
    and lo: "- 2147483648 \<le> sint p - sint x"
    and hi: "sint p - sint x \<le> 2147483647"
  shows "\<exists>d. DivRound \<lparr>dvalue = u, dexp = 0\<rparr> (Decimal_New 1 x) p = Return d \<and> dexp d = - p
           \<and> rat_of_Decimal d = round_places (sint p) (of_int u * pow10 (- sint x))"
proof -
  have mp: "sint (- p) = - sint p" using p by (rule sint32_minus)
  have split: "of_int u * pow10 (- sint x) * pow10 (sint p) = of_int u * pow10 (sint p - sint x)"
    using pow10_add[of "- sint x" "sint p"] by (simp add: algebra_simps)
  show ?thesis
  proof (cases "sint p - sint x < 0")
    case True
    let ?bb = "(10::int) ^ nat (sint x - sint p)"
    have "pow10 (sint p - sint x) = 1 / of_int ?bb"
      using True by (simp add: pow10_def)
    then have "of_int u * pow10 (sint p - sint x) = of_int u / of_int ?bb"
      by simp
    moreover have "round_half_away (of_int u / of_int ?bb) = round_quo u ?bb"
      by (rule round_div) simp
    ultimately have "round_half_away (of_int u * pow10 (sint p - sint x)) = round_quo u ?bb"
      by (simp only:)
    then show ?thesis
      using DivRound_small[OF p lo True, of u]
      by (simp add: rat_of_Decimal_def round_places_def split mp)
  next
    case False
    then have nonneg: "0 \<le> sint p - sint x" by simp
    have "of_int u * pow10 (sint p - sint x) = of_int (u * 10 ^ nat (sint p - sint x))"
      using nonneg by (simp add: pow10_def)
    then have "round_half_away (of_int u * pow10 (sint p - sint x)) = u * 10 ^ nat (sint p - sint x)"
      by (simp only: round_half_away_of_int)
    then show ?thesis
      using DivRound_large[OF p hi nonneg, of u]
      by (simp add: rat_of_Decimal_def round_places_def split mp)
  qed
qed

text \<open>
  C5, as the code has it. For an Amount of \<open>u\<close> units whose unit exponent is not the
  least \<open>int32\<close>, and for every scale \<open>e\<close> with \<open>UnitExp - e\<close> inside \<open>int32\<close>,
  \<open>ScaledValue(e)\<close> returns \<open>u / 10 ^ e\<close> rounded half away from zero to \<open>UnitExp\<close>
  decimal places: the exponent of the result is \<open>- UnitExp\<close>, whatever the scale.
  \<open>Coins()\<close> does the same at the scale \<open>UnitExp\<close>, where the distance is zero.
\<close>

theorem ScaledValue_rounds_at_unit_precision:
  assumes "amount s v D u" and "- 2147483648 < sint (UnitExp D)"
  shows "(- 2147483648 \<le> sint (UnitExp D) - sint e \<and> sint (UnitExp D) - sint e \<le> 2147483647
           \<longrightarrow> (\<exists>d. ScaledValue s v e = Return d \<and> dexp d = - UnitExp D
                  \<and> rat_of_Decimal d =
                      round_places (sint (UnitExp D)) (of_int u * pow10 (- sint e))))
       \<and> (\<exists>d. Coins s v = Return d \<and> dexp d = - UnitExp D
             \<and> rat_of_Decimal d =
                 round_places (sint (UnitExp D)) (of_int u * pow10 (- sint (UnitExp D))))"
proof -
  from assms(1) obtain a b where
    v: "v = Some a" "a < length (coins s)" "def (coins s ! a) = D"
       "value_ptr (coins s ! a) = Some b" "b < length (ints s)" "ints s ! b = u"
    unfolding amount_iff by blast
  have sv: "ScaledValue s v x = DivRound \<lparr>dvalue = u, dexp = 0\<rparr> (Decimal_New 1 x) (UnitExp D)" for x
    using v by (simp add: ScaledValue_def load_cv_def NewFromBigInt_def load_int_def)
  have co: "Coins s v = DivRound \<lparr>dvalue = u, dexp = 0\<rparr> (Decimal_New 1 (UnitExp D)) (UnitExp D)"
    using v by (simp add: Coins_def load_cv_def NewFromBigInt_def load_int_def)
  show ?thesis
    unfolding sv co
    using DivRound_rounds[OF assms(2), of e u] DivRound_rounds[OF assms(2), of "UnitExp D" u]
    by simp
qed

lemmas decimal_defs =
  ScaledValue_def Coins_def NewFromBigInt_def DivRound_def Decimal_QuoRem_def Decimal_New_def
  Decimal_Cmp_def Decimal_Abs_def Decimal_Add_def Decimal_Sub_def RescalePair_def rescale_def
  cmp_int_def quo_int_def rem_int_def

theorem ScaledValue_rounds_at_unit_precision_witness:
  "ScaledValue rounding_store (Some 0) 20 = Return \<lparr>dvalue = 2, dexp = - 18\<rparr>
   \<and> rat_of_Decimal \<lparr>dvalue = 2, dexp = - 18\<rparr> = round_places 18 (150 * pow10 (- 20))
   \<and> ScaledValue rounding_store (Some 1) 20 = Return \<lparr>dvalue = - 2, dexp = - 18\<rparr>
   \<and> rat_of_Decimal \<lparr>dvalue = - 2, dexp = - 18\<rparr> = round_places 18 (- 150 * pow10 (- 20))
   \<and> (\<exists>d. Coins rounding_store (Some 0) = Return d \<and> dexp d = - 18
         \<and> rat_of_Decimal d = round_places 18 (150 * pow10 (- 18)))"
proof -
  have a: "amount rounding_store (Some 0) ethDefinition 150"
    "amount rounding_store (Some 1) ethDefinition (- 150)"
    by (simp_all add: rounding_store_def run_defs)
  have e: "ScaledValue rounding_store (Some 0) 20 = Return \<lparr>dvalue = 2, dexp = - 18\<rparr>"
    "ScaledValue rounding_store (Some 1) 20 = Return \<lparr>dvalue = - 2, dexp = - 18\<rparr>"
    by (simp_all add: rounding_store_def ethDefinition_def load_cv_def load_int_def decimal_defs)
  show ?thesis
    using ScaledValue_rounds_at_unit_precision [OF a(1), of 20]
      ScaledValue_rounds_at_unit_precision [OF a(2), of 20]
    unfolding e
    by (simp add: ethDefinition_def)
qed

text \<open>
  C5 as the specification states it fails: not every scale is answered. At the least
  \<open>int32\<close> scale, and at every scale whose distance to the unit exponent 18 leaves
  \<open>int32\<close>, \<open>ScaledValue\<close> of an Ether amount panics in the decimal library's
  \<open>QuoRem\<close> instead of returning a decimal.
\<close>

theorem ScaledValue_panics_at_least_scale:
  "ScaledValue example_store (Some 0) (- 2147483648) =
     Panic (PanicString ''overflow in decimal QuoRem'')
   \<and> panicked (ScaledValue example_store (Some 0) (- 2147483630))"
  by (simp add: example_store_def ethDefinition_def load_cv_def load_int_def decimal_defs)

end
